theory Spec2Isabelle
  imports Complex_Main
begin

section \<open>SVI calibration module (svi_module.py)\<close>

text \<open>
  The module fits the five-parameter SVI smile to implied-volatility quotes, one maturity
  at a time. Python floats are read as real numbers: rounding, overflow and NaN are outside
  this development. The two library services whose behaviour the module does not fix, the
  local optimizer \<open>scipy.optimize.minimize\<close> and the generator \<open>np.random.uniform\<close>,
  are parameters of the functions that call them; the generator's hidden state is passed
  explicitly. The remaining numpy and pandas operations are written out as their
  documentation describes them for one-dimensional arrays.
\<close>

subsection \<open>Exceptions\<close>

datatype py_exn = ValueError | OtherException string

subsection \<open>numpy on one-dimensional arrays\<close>

definition arr_sub_scalar :: "real list \<Rightarrow> real \<Rightarrow> real list" where
  "arr_sub_scalar xs c = map (\<lambda>x. x - c) xs"

definition arr_add_scalar :: "real list \<Rightarrow> real \<Rightarrow> real list" where
  "arr_add_scalar xs c = map (\<lambda>x. x + c) xs"

definition scalar_mul_arr :: "real \<Rightarrow> real list \<Rightarrow> real list" where
  "scalar_mul_arr c xs = map (\<lambda>x. c * x) xs"

definition arr_mul_scalar :: "real list \<Rightarrow> real \<Rightarrow> real list" where
  "arr_mul_scalar xs c = map (\<lambda>x. x * c) xs"

definition scalar_add_arr :: "real \<Rightarrow> real list \<Rightarrow> real list" where
  "scalar_add_arr c xs = map (\<lambda>x. c + x) xs"

definition arr_square :: "real list \<Rightarrow> real list" where
  "arr_square xs = map (\<lambda>x. x ^ 2) xs"

definition np_sqrt :: "real list \<Rightarrow> real list" where
  "np_sqrt xs = map sqrt xs"

definition np_exp :: "real list \<Rightarrow> real list" where
  "np_exp xs = map exp xs"

text \<open>Addition of two arrays of one shape (both operands of the only use are built from
  the same array \<open>k\<close>).\<close>

definition arr_add :: "real list \<Rightarrow> real list \<Rightarrow> real list" where
  "arr_add xs ys = map2 (+) xs ys"

text \<open>Subtraction with numpy's broadcasting rule for one axis: equal lengths pair up, a
  length-one operand is stretched, anything else raises \<open>ValueError\<close>.\<close>

definition np_sub :: "real list \<Rightarrow> real list \<Rightarrow> py_exn + real list" where
  "np_sub xs ys =
     (if length xs = length ys then Inr (map2 (-) xs ys)
      else if length xs = 1 then Inr (map (\<lambda>y. hd xs - y) ys)
      else if length ys = 1 then Inr (map (\<lambda>x. x - hd ys) xs)
      else Inl ValueError)"

definition np_sum :: "real list \<Rightarrow> real" where
  "np_sum xs = sum_list xs"

text \<open>\<open>np.min\<close> and the builtins \<open>min\<close>, \<open>max\<close> raise \<open>ValueError\<close> on an empty
  argument.\<close>

fun np_min :: "real list \<Rightarrow> py_exn + real" where
  "np_min [] = Inl ValueError"
| "np_min (x # xs) = Inr (fold min xs x)"

fun py_min :: "real list \<Rightarrow> py_exn + real" where
  "py_min [] = Inl ValueError"
| "py_min (x # xs) = Inr (fold min xs x)"

fun py_max :: "real list \<Rightarrow> py_exn + real" where
  "py_max [] = Inl ValueError"
| "py_max (x # xs) = Inr (fold max xs x)"

text \<open>\<open>np.isclose(a, b)\<close> with the default tolerances \<open>rtol = 1e-05\<close>,
  \<open>atol = 1e-08\<close>.\<close>

definition np_isclose :: "real \<Rightarrow> real \<Rightarrow> bool" where
  "np_isclose a b \<longleftrightarrow> \<bar>a - b\<bar> \<le> 1 / 10 ^ 8 + 1 / 10 ^ 5 * \<bar>b\<bar>"

text \<open>\<open>np.linspace(start, stop, num)\<close> with the endpoint included: the samples are
  \<open>arange(num) * step + start\<close> with \<open>step = (stop - start) / (num - 1)\<close>, and the last
  sample is then overwritten with \<open>stop\<close>.\<close>

definition linspace :: "real \<Rightarrow> real \<Rightarrow> nat \<Rightarrow> real list" where
  "linspace start stop num =
     (if num = 0 then []
      else if num = 1 then [start]
      else (map (\<lambda>i. real i * ((stop - start) / real (num - 1)) + start) [0..<num])
             [num - 1 := stop])"

subsection \<open>The SVI model and the calibration objective\<close>

definition svi_model :: "real list \<Rightarrow> real \<Rightarrow> real \<Rightarrow> real \<Rightarrow> real \<Rightarrow> real \<Rightarrow> real list" where
  "svi_model k a b rho m_param sigma =
     scalar_add_arr a
       (scalar_mul_arr b
          (arr_add (scalar_mul_arr rho (arr_sub_scalar k m_param))
                   (np_sqrt (arr_add_scalar (arr_square (arr_sub_scalar k m_param)) (sigma ^ 2)))))"

text \<open>Unpacking \<open>a, b, rho, m_param, sigma = params\<close> raises \<open>ValueError\<close> unless
  \<open>params\<close> has exactly five entries. The penalty \<open>1e10\<close> is returned before \<open>k\<close> and
  \<open>v\<close> are touched.\<close>

fun svi_objective :: "real list \<Rightarrow> real list \<Rightarrow> real list \<Rightarrow> real \<Rightarrow> py_exn + real" where
  "svi_objective [a, b, rho, m_param, sigma] k v lambda_reg =
     (if b < 0 \<or> sigma \<le> 0 \<or> \<bar>rho\<bar> \<ge> 1 then Inr (10 ^ 10)
      else
        (case np_sub (svi_model k a b rho m_param sigma) v of
           Inl e \<Rightarrow> Inl e
         | Inr diff \<Rightarrow>
             (let err = np_sum (arr_square diff);
                  reg_penalty = lambda_reg * (b ^ 2 + sigma ^ 2)
              in Inr (err + reg_penalty))))"
| "svi_objective _ k v lambda_reg = Inl ValueError"

subsection \<open>Multi-start calibration\<close>

text \<open>The result object of \<open>minimize\<close>, with its two fields the module reads
  (\<open>result.fun\<close>, \<open>result.x\<close>).\<close>

record opt_result =
  res_fun :: real
  res_x :: "real list"

text \<open>A box bound \<open>(lo, hi)\<close>; \<open>None\<close> stands for \<open>-np.inf\<close> on the left and
  \<open>np.inf\<close> on the right.\<close>

type_synonym bound = "real option \<times> real option"

text \<open>\<open>minimize(fun, x0, bounds=..., method=...)\<close> either raises or returns a result.\<close>

type_synonym minimizer =
  "(real list \<Rightarrow> py_exn + real) \<Rightarrow> real list \<Rightarrow> bound list \<Rightarrow> string \<Rightarrow> py_exn + opt_result"

text \<open>\<open>np.random.uniform(low, high)\<close>: a draw and the generator's next state.\<close>

type_synonym 's uniform = "real \<Rightarrow> real \<Rightarrow> 's \<Rightarrow> real \<times> 's"

definition bounds :: "bound list" where
  "bounds =
     [(None, None),
      (Some 0, None),
      (Some (- (99 / 100)), Some (99 / 100)),
      (None, None),
      (Some (1 / 1000), None)]"

text \<open>The value of \<open>best_obj_val\<close>: \<open>np.inf\<close> until the first accepted attempt.\<close>

datatype objval = PosInf | Finite real

fun lt_objval :: "real \<Rightarrow> objval \<Rightarrow> bool" where
  "lt_objval f PosInf = True"
| "lt_objval f (Finite g) = (f < g)"

text \<open>One pass of the loop body up to the optimizer call: five draws in the source's
  order, then \<open>minimize\<close> on the objective closed over \<open>k\<close>, \<open>v\<close>, \<open>lambda_reg\<close>.\<close>

definition svi_attempt ::
  "minimizer \<Rightarrow> 's uniform \<Rightarrow> real list \<Rightarrow> real list \<Rightarrow> real \<Rightarrow> real \<Rightarrow> 's
     \<Rightarrow> (py_exn + opt_result) \<times> 's" where
  "svi_attempt minimize uniform k v lambda_reg base_a s =
     (let (u1, s1) = uniform (- (1 / 2)) (1 / 2) s;
          a0 = base_a + u1;
          (u2, s2) = uniform (- (5 / 100)) (5 / 100) s1;
          b0 = 1 / 10 + u2;
          (rho0, s3) = uniform (- (9 / 10)) (9 / 10) s2;
          (m0, s4) = uniform (- (1 / 10)) (1 / 10) s3;
          (u5, s5) = uniform 0 (1 / 10) s4;
          sigma0 = 1 / 10 + u5;
          x0 = [a0, b0, rho0, m0, sigma0]
      in (minimize (\<lambda>params. svi_objective params k v lambda_reg) x0 bounds ''L-BFGS-B'', s5))"

text \<open>The \<open>for\<close> loop with its two variables \<open>best_params\<close> and \<open>best_obj_val\<close>; a raising
  attempt is skipped (\<open>except Exception: continue\<close>).\<close>

fun calibrate_loop ::
  "minimizer \<Rightarrow> 's uniform \<Rightarrow> real list \<Rightarrow> real list \<Rightarrow> real \<Rightarrow> real \<Rightarrow> nat
     \<Rightarrow> real list option \<Rightarrow> objval \<Rightarrow> 's \<Rightarrow> real list option \<times> 's" where
  "calibrate_loop minimize uniform k v lambda_reg base_a 0 best_params best_obj_val s =
     (best_params, s)"
| "calibrate_loop minimize uniform k v lambda_reg base_a (Suc n) best_params best_obj_val s =
     (case svi_attempt minimize uniform k v lambda_reg base_a s of
        (Inl e, s') \<Rightarrow>
          calibrate_loop minimize uniform k v lambda_reg base_a n best_params best_obj_val s'
      | (Inr result, s') \<Rightarrow>
          if lt_objval (res_fun result) best_obj_val
          then calibrate_loop minimize uniform k v lambda_reg base_a n
                 (Some (res_x result)) (Finite (res_fun result)) s'
          else calibrate_loop minimize uniform k v lambda_reg base_a n best_params best_obj_val s')"

text \<open>\<open>range(multi_start_count)\<close> is empty for a count below one.\<close>

definition calibrate_svi ::
  "minimizer \<Rightarrow> 's uniform \<Rightarrow> real list \<Rightarrow> real list \<Rightarrow> real \<Rightarrow> int \<Rightarrow> 's
     \<Rightarrow> py_exn + (real list option \<times> 's)" where
  "calibrate_svi minimize uniform k v lambda_reg multi_start_count s =
     (case np_min v of
        Inl e \<Rightarrow> Inl e
      | Inr base_a \<Rightarrow>
          Inr (calibrate_loop minimize uniform k v lambda_reg base_a (nat multi_start_count)
                 None PosInf s))"

subsection \<open>Tables\<close>

text \<open>A pandas \<open>DataFrame\<close>: its column labels and its rows. The three columns read from
  a quote and written to a surface row carry the same labels, so both row types extend one
  record. A quote's \<open>volume\<close> cell is \<open>None\<close> when it is missing (or when the table has
  no such column).\<close>

record vol_point =
  TimeToExpiry :: real
  LogMoneyness :: real
  ImpliedVolatility :: real

record quote = vol_point +
  volume :: "real option"

record surface_row = vol_point +
  StrikePrice :: real
  Moneyness :: real
  OptionType :: string

record 'r dataframe =
  columns :: "string list"
  rows :: "'r list"

subsection \<open>Surface generation\<close>

text \<open>\<open>str.replace(old, new)\<close>: every non-overlapping occurrence, scanning from the left;
  an empty \<open>old\<close> matches before every character and at the end.\<close>

function replace_from :: "string \<Rightarrow> string \<Rightarrow> string \<Rightarrow> string" where
  "replace_from old new [] = []"
| "replace_from old new (c # cs) =
     (if old \<noteq> [] \<and> take (length old) (c # cs) = old
      then new @ replace_from old new (drop (length old) (c # cs))
      else c # replace_from old new cs)"
  by pat_completeness auto
termination
  by (relation "measure (\<lambda>(old, new, s). length s)") (auto simp: neq_Nil_conv)

definition str_replace :: "string \<Rightarrow> string \<Rightarrow> string \<Rightarrow> string" where
  "str_replace s old new =
     (if old = [] then new @ concat (map (\<lambda>c. c # new) s) else replace_from old new s)"

definition option_type_label :: "string \<Rightarrow> string" where
  "option_type_label option_data_type =
     str_replace (str_replace option_data_type '' Only'' []) ''Both Calls & Puts'' ''Both''"

text \<open>The part of the loop body after a successful calibration: unpack the five
  parameters, sample the model on the grid, and build one row per grid point.\<close>

fun smile_rows :: "real \<Rightarrow> string \<Rightarrow> real \<Rightarrow> real list \<Rightarrow> real list \<Rightarrow> py_exn + surface_row list" where
  "smile_rows spot_price option_data_type maturity k [a, b, rho, m_param, sigma] =
     (case py_min k of
        Inl e \<Rightarrow> Inl e
      | Inr lo \<Rightarrow>
          (case py_max k of
             Inl e \<Rightarrow> Inl e
           | Inr hi \<Rightarrow>
               (let k_smooth = linspace (lo - 1 / 10) (hi + 1 / 10) 100;
                    v_smooth = svi_model k_smooth a b rho m_param sigma;
                    strikes_smooth = scalar_mul_arr spot_price (np_exp k_smooth)
                in Inr (map (\<lambda>i.
                     \<lparr>TimeToExpiry = maturity,
                      LogMoneyness = k_smooth ! i,
                      ImpliedVolatility = v_smooth ! i / 100,
                      StrikePrice = strikes_smooth ! i,
                      Moneyness = exp (k_smooth ! i),
                      OptionType = option_type_label option_data_type\<rparr>)
                     [0..<length k_smooth]))))"
| "smile_rows spot_price option_data_type maturity k _ = Inl ValueError"

definition maturity_slice :: "quote dataframe \<Rightarrow> real \<Rightarrow> quote list" where
  "maturity_slice imp_vol_data maturity =
     filter (\<lambda>q. np_isclose (TimeToExpiry q) maturity) (rows imp_vol_data)"

text \<open>One pass of the loop over the maturities: the rows it appends (none when it takes
  a \<open>continue\<close>) and the generator state it leaves.\<close>

definition svi_maturity ::
  "minimizer \<Rightarrow> 's uniform \<Rightarrow> quote dataframe \<Rightarrow> real \<Rightarrow> real \<Rightarrow> int \<Rightarrow> string \<Rightarrow> real \<Rightarrow> 's
     \<Rightarrow> py_exn + (surface_row list \<times> 's)" where
  "svi_maturity minimize uniform imp_vol_data spot_price reg_weight multi_start_count
       option_data_type maturity s =
     (let maturity_data = maturity_slice imp_vol_data maturity in
      if length maturity_data < 5 then Inr ([], s)
      else
        (let k = map LogMoneyness maturity_data;
             v = arr_mul_scalar (map ImpliedVolatility maturity_data) 100
         in case calibrate_svi minimize uniform k v reg_weight multi_start_count s of
              Inl e \<Rightarrow> Inl e
            | Inr (None, s') \<Rightarrow> Inr ([], s')
            | Inr (Some params, s') \<Rightarrow>
                (case smile_rows spot_price option_data_type maturity k params of
                   Inl e \<Rightarrow> Inl e
                 | Inr new_rows \<Rightarrow> Inr (new_rows, s'))))"

fun generate_loop ::
  "minimizer \<Rightarrow> 's uniform \<Rightarrow> quote dataframe \<Rightarrow> real \<Rightarrow> real \<Rightarrow> int \<Rightarrow> string \<Rightarrow> real list
     \<Rightarrow> surface_row list \<Rightarrow> 's \<Rightarrow> py_exn + (surface_row list \<times> 's)" where
  "generate_loop minimize uniform imp_vol_data spot_price reg_weight multi_start_count
       option_data_type [] svi_calibrated_data s = Inr (svi_calibrated_data, s)"
| "generate_loop minimize uniform imp_vol_data spot_price reg_weight multi_start_count
       option_data_type (maturity # rest) svi_calibrated_data s =
     (case svi_maturity minimize uniform imp_vol_data spot_price reg_weight multi_start_count
             option_data_type maturity s of
        Inl e \<Rightarrow> Inl e
      | Inr (new_rows, s') \<Rightarrow>
          generate_loop minimize uniform imp_vol_data spot_price reg_weight multi_start_count
            option_data_type rest (svi_calibrated_data @ new_rows) s')"

text \<open>A frame built from a non-empty list of row dictionaries takes its columns from
  their keys; the empty case names its columns itself.\<close>

definition generate_svi_calibrated_data ::
  "minimizer \<Rightarrow> 's uniform \<Rightarrow> real list \<Rightarrow> quote dataframe \<Rightarrow> real \<Rightarrow> real \<Rightarrow> int \<Rightarrow> string \<Rightarrow> 's
     \<Rightarrow> py_exn + (surface_row dataframe \<times> 's)" where
  "generate_svi_calibrated_data minimize uniform unique_maturities imp_vol_data spot_price
       reg_weight multi_start_count option_data_type s =
     (case generate_loop minimize uniform imp_vol_data spot_price reg_weight multi_start_count
             option_data_type unique_maturities [] s of
        Inl e \<Rightarrow> Inl e
      | Inr (svi_calibrated_data, s') \<Rightarrow>
          Inr (if svi_calibrated_data \<noteq> []
               then \<lparr>columns = [''TimeToExpiry'', ''LogMoneyness'', ''StrikePrice'',
                                ''Moneyness'', ''ImpliedVolatility'', ''OptionType''],
                     rows = svi_calibrated_data\<rparr>
               else \<lparr>columns = [''TimeToExpiry'', ''StrikePrice'', ''Moneyness'',
                                ''ImpliedVolatility'', ''OptionType''],
                     rows = []\<rparr>,
               s'))"

subsection \<open>Outlier filter\<close>

text \<open>\<open>Series.quantile(q)\<close> with the default linear interpolation: on the sorted values,
  the position \<open>(n - 1) * q\<close> is interpolated between its two neighbours. An empty series
  gives NaN, written \<open>None\<close>.\<close>

definition quantile :: "real list \<Rightarrow> real \<Rightarrow> real option" where
  "quantile xs q =
     (if xs = [] then None
      else
        (let srt = sort xs;
             h = real (length xs - 1) * q;
             lo = nat \<lfloor>h\<rfloor>;
             hi = min (lo + 1) (length xs - 1)
         in Some (srt ! lo + (srt ! hi - srt ! lo) * (h - real lo))))"

text \<open>A comparison with a missing cell or with NaN is false, so such a row is dropped.\<close>

definition volume_above :: "real \<Rightarrow> quote \<Rightarrow> bool" where
  "volume_above c q = (case volume q of None \<Rightarrow> False | Some vol \<Rightarrow> vol > c)"

definition filter_outliers :: "quote dataframe \<Rightarrow> quote dataframe" where
  "filter_outliers imp_vol_data =
     (let imp_vol_data1 =
            (if ''volume'' \<in> set (columns imp_vol_data)
             then imp_vol_data\<lparr>rows := filter (volume_above 10) (rows imp_vol_data)\<rparr>
             else imp_vol_data);
          iv = map ImpliedVolatility (rows imp_vol_data1)
      in case (quantile iv (1 / 4), quantile iv (3 / 4)) of
           (Some Q1, Some Q3) \<Rightarrow>
             (let IQR = Q3 - Q1;
                  lower_bound = Q1 - 2 * IQR;
                  upper_bound = Q3 + 2 * IQR
              in imp_vol_data1\<lparr>rows :=
                   filter (\<lambda>q. ImpliedVolatility q \<ge> lower_bound \<and> ImpliedVolatility q \<le> upper_bound)
                     (rows imp_vol_data1)\<rparr>)
         | _ \<Rightarrow> imp_vol_data1\<lparr>rows := []\<rparr>)"

subsection \<open>The attempts of one calibration, as a trace\<close>

text \<open>The outcomes of the attempts of the loop, in order: each is what \<open>svi_attempt\<close>
  returns from the generator state the previous attempt left.\<close>

fun attempt_outcomes ::
  "minimizer \<Rightarrow> 's uniform \<Rightarrow> real list \<Rightarrow> real list \<Rightarrow> real \<Rightarrow> real \<Rightarrow> nat \<Rightarrow> 's
     \<Rightarrow> (py_exn + opt_result) list" where
  "attempt_outcomes minimize uniform k v lambda_reg base_a 0 s = []"
| "attempt_outcomes minimize uniform k v lambda_reg base_a (Suc n) s =
     (case svi_attempt minimize uniform k v lambda_reg base_a s of
        (outcome, s') \<Rightarrow> outcome # attempt_outcomes minimize uniform k v lambda_reg base_a n s')"

definition calibration_attempts ::
  "minimizer \<Rightarrow> 's uniform \<Rightarrow> real list \<Rightarrow> real list \<Rightarrow> real \<Rightarrow> int \<Rightarrow> 's
     \<Rightarrow> (py_exn + opt_result) list" where
  "calibration_attempts minimize uniform k v lambda_reg multi_start_count s =
     (case np_min v of
        Inl e \<Rightarrow> []
      | Inr base_a \<Rightarrow>
          attempt_outcomes minimize uniform k v lambda_reg base_a (nat multi_start_count) s)"

text \<open>The loop invariant: after the attempts \<open>seen\<close>, either nothing was accepted and all
  of them raised, or the two variables hold the result of a completed attempt whose
  reported value no completed attempt undercuts.\<close>

definition best_so_far :: "(py_exn + opt_result) set \<Rightarrow> real list option \<Rightarrow> objval \<Rightarrow> bool" where
  "best_so_far seen best_params best_obj_val \<longleftrightarrow>
     (case best_params of
        None \<Rightarrow> best_obj_val = PosInf \<and> (\<forall>outcome \<in> seen. isl outcome)
      | Some p \<Rightarrow>
          (\<exists>r. Inr r \<in> seen \<and> p = res_x r \<and> best_obj_val = Finite (res_fun r) \<and>
               (\<forall>r'. Inr r' \<in> seen \<longrightarrow> res_fun r \<le> res_fun r')))"

text \<open>The optimizer keeps the shape of its start vector, as \<open>minimize\<close> documents for
  \<open>result.x\<close>.\<close>

definition keeps_shape :: "minimizer \<Rightarrow> bool" where
  "keeps_shape minimize \<longleftrightarrow>
     (\<forall>f x0 bnds method r. minimize f x0 bnds method = Inr r \<longrightarrow> length (res_x r) = length x0)"

subsection \<open>Names for the statements about the generator\<close>

text \<open>The arrays \<open>k\<close> and \<open>v\<close> that a pass of the generator's loop hands to
  \<open>calibrate_svi\<close>, and the row dictionary it builds at one grid point \<open>x\<close>.\<close>

definition slice_k :: "quote dataframe \<Rightarrow> real \<Rightarrow> real list" where
  "slice_k imp_vol_data maturity = map LogMoneyness (maturity_slice imp_vol_data maturity)"

definition slice_v :: "quote dataframe \<Rightarrow> real \<Rightarrow> real list" where
  "slice_v imp_vol_data maturity =
     arr_mul_scalar (map ImpliedVolatility (maturity_slice imp_vol_data maturity)) 100"

definition grid_row ::
  "real \<Rightarrow> string \<Rightarrow> real \<Rightarrow> real \<Rightarrow> real \<Rightarrow> real \<Rightarrow> real \<Rightarrow> real \<Rightarrow> real \<Rightarrow> surface_row" where
  "grid_row spot_price option_data_type maturity a b rho m_param sigma x =
     \<lparr>TimeToExpiry = maturity,
      LogMoneyness = x,
      ImpliedVolatility = svi_model [x] a b rho m_param sigma ! 0 / 100,
      StrikePrice = spot_price * exp x,
      Moneyness = exp x,
      OptionType = option_type_label option_data_type\<rparr>"

subsection \<open>Concrete collaborators for worked examples\<close>

text \<open>A generator that always returns the midpoint of the interval; an optimizer that
  stops at its start point and reports the objective there; and one that leaves the box,
  setting \<open>b = -1\<close>, and reports the objective there.\<close>

definition midpoint_uniform :: "unit uniform" where
  "midpoint_uniform low high s = ((low + high) / 2, s)"

definition start_point_minimize :: minimizer where
  "start_point_minimize f x0 bnds method =
     (case f x0 of Inl e \<Rightarrow> Inl e | Inr y \<Rightarrow> Inr \<lparr>res_fun = y, res_x = x0\<rparr>)"


text \<open>A quote table with six quotes at maturity \<open>0.5\<close> and two at maturity \<open>1\<close>, with no
  volume column.\<close>

definition smile_quotes :: "quote dataframe" where
  "smile_quotes =
     \<lparr>columns = [''TimeToExpiry'', ''LogMoneyness'', ''ImpliedVolatility''],
      rows =
        [\<lparr>TimeToExpiry = 1 / 2, LogMoneyness = - (1 / 5), ImpliedVolatility = 25 / 100, volume = None\<rparr>,
         \<lparr>TimeToExpiry = 1 / 2, LogMoneyness = - (1 / 10), ImpliedVolatility = 22 / 100, volume = None\<rparr>,
         \<lparr>TimeToExpiry = 1 / 2, LogMoneyness = 0, ImpliedVolatility = 20 / 100, volume = None\<rparr>,
         \<lparr>TimeToExpiry = 1 / 2, LogMoneyness = 1 / 10, ImpliedVolatility = 21 / 100, volume = None\<rparr>,
         \<lparr>TimeToExpiry = 1 / 2, LogMoneyness = 1 / 5, ImpliedVolatility = 23 / 100, volume = None\<rparr>,
         \<lparr>TimeToExpiry = 1 / 2, LogMoneyness = 3 / 10, ImpliedVolatility = 26 / 100, volume = None\<rparr>,
         \<lparr>TimeToExpiry = 1, LogMoneyness = 0, ImpliedVolatility = 30 / 100, volume = None\<rparr>,
         \<lparr>TimeToExpiry = 1, LogMoneyness = 1 / 10, ImpliedVolatility = 31 / 100, volume = None\<rparr>]\<rparr>"

text \<open>Five quotes of which one is far out, without and with a volume column (there with a
  sixth quote, one volume below the threshold and one missing).\<close>

definition five_vols :: "quote dataframe" where
  "five_vols =
     \<lparr>columns = [''TimeToExpiry'', ''LogMoneyness'', ''ImpliedVolatility''],
      rows =
        [\<lparr>TimeToExpiry = 1, LogMoneyness = 0, ImpliedVolatility = 1 / 10, volume = None\<rparr>,
         \<lparr>TimeToExpiry = 1, LogMoneyness = 0, ImpliedVolatility = 3 / 25, volume = None\<rparr>,
         \<lparr>TimeToExpiry = 1, LogMoneyness = 0, ImpliedVolatility = 11 / 100, volume = None\<rparr>,
         \<lparr>TimeToExpiry = 1, LogMoneyness = 0, ImpliedVolatility = 13 / 100, volume = None\<rparr>,
         \<lparr>TimeToExpiry = 1, LogMoneyness = 0, ImpliedVolatility = 9 / 10, volume = None\<rparr>]\<rparr>"

definition five_vols_volume :: "quote dataframe" where
  "five_vols_volume =
     \<lparr>columns = [''TimeToExpiry'', ''LogMoneyness'', ''ImpliedVolatility'', ''volume''],
      rows =
        [\<lparr>TimeToExpiry = 1, LogMoneyness = 0, ImpliedVolatility = 1 / 10, volume = Some 100\<rparr>,
         \<lparr>TimeToExpiry = 1, LogMoneyness = 0, ImpliedVolatility = 3 / 25, volume = Some 5\<rparr>,
         \<lparr>TimeToExpiry = 1, LogMoneyness = 0, ImpliedVolatility = 11 / 100, volume = Some 100\<rparr>,
         \<lparr>TimeToExpiry = 1, LogMoneyness = 0, ImpliedVolatility = 13 / 100, volume = None\<rparr>,
         \<lparr>TimeToExpiry = 1, LogMoneyness = 0, ImpliedVolatility = 9 / 10, volume = Some 11\<rparr>,
         \<lparr>TimeToExpiry = 1, LogMoneyness = 0, ImpliedVolatility = 7 / 50, volume = Some 20\<rparr>]\<rparr>"

section \<open>Properties\<close>

subsection \<open>The model and the objective\<close>

lemmas arr_defs = arr_sub_scalar_def arr_add_scalar_def scalar_mul_arr_def arr_mul_scalar_def
  scalar_add_arr_def arr_square_def np_sqrt_def np_exp_def arr_add_def np_sum_def

lemma svi_model_map:
  "svi_model k a b rho m_param sigma =
     map (\<lambda>x. a + b * (rho * (x - m_param) + sqrt ((x - m_param) ^ 2 + sigma ^ 2))) k"
  by (simp add: svi_model_def arr_defs zip_map_map zip_same_conv_map)

text \<open>
  Claim C7. For a parameter set with \<open>b \<ge> 0\<close>, \<open>|rho| < 1\<close> and \<open>sigma > 0\<close> and any
  sequence \<open>k\<close> of real log-moneyness values, \<open>svi_model\<close> returns one value per entry of
  \<open>k\<close>, and the value at position \<open>i\<close> is
  \<open>a + b * (rho * (k[i] - m) + sqrt ((k[i] - m)^2 + sigma^2))\<close>. The result is a function of
  the arguments alone.
\<close>

theorem svi_model_formula:
  assumes "b \<ge> 0" and "\<bar>rho\<bar> < 1" and "sigma > 0"
  shows "length (svi_model k a b rho m_param sigma) = length k \<and>
         (\<forall>i < length k. svi_model k a b rho m_param sigma ! i =
            a + b * (rho * (k ! i - m_param) + sqrt ((k ! i - m_param) ^ 2 + sigma ^ 2)))"
  by (simp add: svi_model_map)

theorem svi_model_formula_witness:
  "length (svi_model [0, 1] 1 2 (1 / 2) 0 3) = 2 \<and>
   svi_model [0, 1] 1 2 (1 / 2) 0 3 ! 0 = 7"
proof -
  have b: "(0::real) \<le> 2" and rho: "\<bar>1 / 2 :: real\<bar> < 1" and sigma: "(0::real) < 3"
    by simp_all
  from svi_model_formula [OF b rho sigma, of "[0, 1]" 1 0]
  show ?thesis by simp
qed

text \<open>
  Claim C3. When \<open>b < 0\<close> or \<open>sigma \<le> 0\<close> or \<open>|rho| \<ge> 1\<close>, \<open>svi_objective\<close> returns the
  constant \<open>1e10\<close> whatever \<open>k\<close> and \<open>v\<close> are (also when their lengths do not fit, where
  evaluating the model error would raise). When all three bounds hold, on the points
  \<open>(k[i], v[i])\<close> of a slice it returns the sum of the squared differences between the model
  value and the market value, plus \<open>lambda_reg * (b^2 + sigma^2)\<close>.
\<close>

theorem svi_objective_gate:
  "(b < 0 \<or> sigma \<le> 0 \<or> \<bar>rho\<bar> \<ge> 1 \<longrightarrow>
      svi_objective [a, b, rho, m_param, sigma] k v lambda_reg = Inr (10 ^ 10)) \<and>
   (b \<ge> 0 \<and> sigma > 0 \<and> \<bar>rho\<bar> < 1 \<and> length k = length v \<longrightarrow>
      svi_objective [a, b, rho, m_param, sigma] k v lambda_reg =
        Inr ((\<Sum>(x, y) \<leftarrow> zip k v.
               (a + b * (rho * (x - m_param) + sqrt ((x - m_param) ^ 2 + sigma ^ 2)) - y) ^ 2)
             + lambda_reg * (b ^ 2 + sigma ^ 2)))"
  apply (simp add: svi_model_map np_sub_def arr_defs Let_def zip_map1 split_def)
  apply (auto simp: comp_def split_def intro!: arg_cong[where f=sum_list])
  done

theorem svi_objective_gate_witness:
  "svi_objective [0, - 1, 0, 0, 1] [0, 1] [5, 6, 7] 3 = Inr (10 ^ 10) \<and>
   svi_objective [0, 1, 0, 0, 1] [0] [3] 2 = Inr 8"
proof -
  from svi_objective_gate [of "- 1" 1 0 0 0 "[0, 1]" "[5, 6, 7]" 3]
  have p: "svi_objective [0, - 1, 0, 0, 1] [0, 1] [5, 6, 7] 3 = Inr (10 ^ 10)" by simp
  from svi_objective_gate [of 1 1 0 0 0 "[0]" "[3]" 2]
  have f: "svi_objective [0, 1, 0, 0, 1] [0] [3] 2 = Inr 8" by simp
  from p f show ?thesis by simp
qed

subsection \<open>Multi-start calibration\<close>

lemma best_so_far_raise:
  "best_so_far seen bp bo \<Longrightarrow> best_so_far (insert (Inl e) seen) bp bo"
  by (auto simp: best_so_far_def split: option.splits)

lemma best_so_far_accept:
  "best_so_far seen bp bo \<Longrightarrow> lt_objval (res_fun r) bo \<Longrightarrow>
   best_so_far (insert (Inr r) seen) (Some (res_x r)) (Finite (res_fun r))"
  by (cases bp) (fastforce simp: best_so_far_def)+

lemma best_so_far_reject:
  "best_so_far seen bp bo \<Longrightarrow> \<not> lt_objval (res_fun r) bo \<Longrightarrow>
   best_so_far (insert (Inr r) seen) bp bo"
  by (cases bp) (fastforce simp: best_so_far_def)+

lemma calibrate_loop_inv:
  "best_so_far seen bp bo \<Longrightarrow>
   \<exists>bo'. best_so_far (seen \<union> set (attempt_outcomes minimize uniform k v lambda_reg base_a n s))
           (fst (calibrate_loop minimize uniform k v lambda_reg base_a n bp bo s)) bo'"
proof (induction n arbitrary: seen bp bo s)
  case 0
  then show ?case by auto
next
  case (Suc n)
  obtain outcome s' where att: "svi_attempt minimize uniform k v lambda_reg base_a s = (outcome, s')"
    by (cases "svi_attempt minimize uniform k v lambda_reg base_a s")
  show ?case
  proof (cases outcome)
    case (Inl e)
    from Suc.IH [OF best_so_far_raise [OF Suc.prems, of e], of s'] att Inl
    show ?thesis by simp
  next
    case (Inr r)
    show ?thesis
    proof (cases "lt_objval (res_fun r) bo")
      case True
      from Suc.IH [OF best_so_far_accept [OF Suc.prems True], of s'] att Inr True
      show ?thesis by simp
    next
      case False
      from Suc.IH [OF best_so_far_reject [OF Suc.prems False], of s'] att Inr False
      show ?thesis by simp
    qed
  qed
qed

lemma best_so_far_start: "best_so_far {} None PosInf"
  by (simp add: best_so_far_def)

lemma calibrate_svi_inv:
  "v \<noteq> [] \<Longrightarrow>
   \<exists>bp s' bo. calibrate_svi minimize uniform k v lambda_reg N s = Inr (bp, s') \<and>
     best_so_far (set (calibration_attempts minimize uniform k v lambda_reg N s)) bp bo"
proof -
  assume "v \<noteq> []"
  then obtain x xs where v: "v = x # xs" by (cases v) auto
  from calibrate_loop_inv [OF best_so_far_start, of minimize uniform k v lambda_reg "fold min xs x" "nat N" s]
  show ?thesis
    by (auto simp: calibrate_svi_def calibration_attempts_def v
        intro: prod.collapse [symmetric])
qed



lemma nat_1_Suc: "nat 1 = Suc 0"
  by simp

lemma calibrate_example:
  "calibrate_svi start_point_minimize midpoint_uniform [0] [1] 100000000000000000 1 () =
     Inr (Some [1, 1 / 10, 0, 0, 3 / 20], ())"
  by (simp add: calibrate_svi_def nat_1_Suc svi_attempt_def midpoint_uniform_def
      start_point_minimize_def svi_model_map np_sub_def arr_defs bounds_def Let_def
      power2_eq_square)





text \<open>The second example does not depend on where the optimizer stops: at this weight
  every vector inside the box \<open>bounds\<close> has an objective value above the penalty.\<close>

lemma objective_above_penalty_in_box:
  assumes "0 \<le> b" and "\<bar>rho\<bar> \<le> 99 / 100" and "1 / 1000 \<le> sigma" and "length k = length v"
  shows "\<exists>y. svi_objective [a, b, rho, m_param, sigma] k v 100000000000000000 = Inr y \<and> 10 ^ 10 < y"
proof -
  let ?err = "np_sum (arr_square (map2 (-) (svi_model k a b rho m_param sigma) v))"
  have err: "0 \<le> ?err"
    by (auto simp: np_sum_def arr_square_def intro!: sum_list_nonneg)
  from assms(3) have "(1 / 1000) ^ 2 \<le> sigma ^ 2"
    by (intro power_mono) simp_all
  then have "1 / 1000000 \<le> b ^ 2 + sigma ^ 2"
    by (simp add: power2_eq_square add_increasing)
  then have reg: "100000000000 \<le> 100000000000000000 * (b ^ 2 + sigma ^ 2)"
    by simp
  from assms have "svi_objective [a, b, rho, m_param, sigma] k v 100000000000000000 =
      Inr (?err + 100000000000000000 * (b ^ 2 + sigma ^ 2))"
    by (simp add: np_sub_def svi_model_map Let_def)
  moreover from err reg have "10 ^ 10 < ?err + 100000000000000000 * (b ^ 2 + sigma ^ 2)"
    by simp
  ultimately show ?thesis by blast
qed

text \<open>
  Claim C5, as the code has it. For any start count, a vector returned by \<open>calibrate_svi\<close>
  is the \<open>result.x\<close> of a completed attempt whose reported objective value is at most the
  value reported by every completed attempt of that call; and a run with one start on a
  non-empty \<open>v\<close> does not raise.
\<close>

theorem calibrate_svi_returns_best:
  "(\<forall>p s'. calibrate_svi minimize uniform k v lambda_reg N s = Inr (Some p, s') \<longrightarrow>
      (\<exists>r. Inr r \<in> set (calibration_attempts minimize uniform k v lambda_reg N s) \<and> res_x r = p \<and>
           (\<forall>r'. Inr r' \<in> set (calibration_attempts minimize uniform k v lambda_reg N s) \<longrightarrow>
                 res_fun r \<le> res_fun r'))) \<and>
   (v \<noteq> [] \<longrightarrow> (\<exists>res. calibrate_svi minimize uniform k v lambda_reg 1 s = Inr res))"
proof (intro conjI allI impI)
  fix p s'
  assume ret: "calibrate_svi minimize uniform k v lambda_reg N s = Inr (Some p, s')"
  then have "v \<noteq> []" by (auto simp: calibrate_svi_def)
  from calibrate_svi_inv [OF this, of minimize uniform k lambda_reg N s] ret
  obtain bo where "best_so_far (set (calibration_attempts minimize uniform k v lambda_reg N s)) (Some p) bo"
    by auto
  then show "\<exists>r. Inr r \<in> set (calibration_attempts minimize uniform k v lambda_reg N s) \<and> res_x r = p \<and>
           (\<forall>r'. Inr r' \<in> set (calibration_attempts minimize uniform k v lambda_reg N s) \<longrightarrow>
                 res_fun r \<le> res_fun r')"
    by (auto simp: best_so_far_def)
next
  assume "v \<noteq> []"
  from calibrate_svi_inv [OF this, of minimize uniform k lambda_reg 1 s]
  show "\<exists>res. calibrate_svi minimize uniform k v lambda_reg 1 s = Inr res"
    by auto
qed

theorem calibrate_svi_returns_best_witness:
  "(\<exists>r. Inr r \<in> set (calibration_attempts start_point_minimize midpoint_uniform [0] [1] 100000000000000000 1 ())
       \<and> res_x r = [1, 1 / 10, 0, 0, 3 / 20]) \<and>
   (\<exists>res. calibrate_svi start_point_minimize midpoint_uniform [0] [1] 100000000000000000 1 () = Inr res)"
  using calibrate_svi_returns_best [of start_point_minimize midpoint_uniform "[0]" "[1]" 100000000000000000 1 "()"]
    calibrate_example
  by auto

text \<open>
  Without the restriction to a non-empty \<open>v\<close> the last part fails: \<open>np.min\<close> of an empty
  array raises before the first attempt, also with one start.
\<close>

theorem calibrate_svi_empty_raises:
  "calibrate_svi start_point_minimize midpoint_uniform [] [] 0 1 () = Inl ValueError"
  by (simp add: calibrate_svi_def)

lemma attempt_outcomes_shape:
  "keeps_shape minimize \<Longrightarrow>
   Inr r \<in> set (attempt_outcomes minimize uniform k v lambda_reg base_a n s) \<Longrightarrow>
   length (res_x r) = 5"
proof (induction n arbitrary: s)
  case 0
  then show ?case by simp
next
  case (Suc n)
  then show ?case
    by (auto simp: svi_attempt_def keeps_shape_def Let_def split: prod.splits)
qed

lemma calibrate_svi_total:
  assumes "v \<noteq> []" and "keeps_shape minimize"
  shows "\<exists>res s'. calibrate_svi minimize uniform k v lambda_reg N s = Inr (res, s') \<and>
           (res = None \<or> (\<exists>p. res = Some p \<and> length p = 5))"
proof -
  from calibrate_svi_inv [OF assms(1), of minimize uniform k lambda_reg N s]
  obtain bp s' bo where ret: "calibrate_svi minimize uniform k v lambda_reg N s = Inr (bp, s')"
    and inv: "best_so_far (set (calibration_attempts minimize uniform k v lambda_reg N s)) bp bo"
    by blast
  have "length p = 5" if "bp = Some p" for p
    using inv that attempt_outcomes_shape [OF assms(2)]
    by (auto simp: best_so_far_def calibration_attempts_def split: sum.splits)
  with ret show ?thesis by (cases bp) auto
qed

subsection \<open>Surface generation\<close>

lemma linspace_length: "length (linspace start stop num) = num"
  by (simp add: linspace_def)

lemma linspace_nth:
  assumes "2 \<le> num" and "i < num"
  shows "linspace start stop num ! i = start + real i * ((stop - start) / real (num - 1))"
proof (cases "i = num - 1")
  case True
  with assms show ?thesis
    by (simp add: linspace_def)
next
  case False
  with assms show ?thesis
    by (simp add: linspace_def)
qed

lemma py_min_Min: "k \<noteq> [] \<Longrightarrow> py_min k = Inr (Min (set k))"
  by (cases k) (simp_all add: Min.set_eq_fold [symmetric] del: set_simps)

lemma py_max_Max: "k \<noteq> [] \<Longrightarrow> py_max k = Inr (Max (set k))"
  by (cases k) (simp_all add: Max.set_eq_fold [symmetric] del: set_simps)

lemma rows_by_index:
  "map (\<lambda>i. F (ks ! i) (svi_model ks a b rho m_param sigma ! i)
                (scalar_mul_arr spot_price (np_exp ks) ! i)) [0..<length ks] =
   map (\<lambda>x. F x (svi_model [x] a b rho m_param sigma ! 0) (spot_price * exp x)) ks"
  by (rule nth_equalityI) (simp_all add: svi_model_map arr_defs)

lemma five_params:
  "length params = 5 \<Longrightarrow> \<exists>a b rho m_param sigma. params = [a, b, rho, m_param, sigma]"
  by (auto simp: length_Suc_conv eval_nat_numeral)

lemma smile_rows_grid:
  assumes "k \<noteq> []"
  shows "smile_rows spot_price option_data_type maturity k [a, b, rho, m_param, sigma] =
           Inr (map (grid_row spot_price option_data_type maturity a b rho m_param sigma)
                  (linspace (Min (set k) - 1 / 10) (Max (set k) + 1 / 10) 100))"
proof -
  show ?thesis
    by (simp add: py_min_Min py_max_Max assms(1) Let_def grid_row_def
        rows_by_index [where F = "\<lambda>x y z. \<lparr>TimeToExpiry = maturity, LogMoneyness = x,
          ImpliedVolatility = y / 100, StrikePrice = z, Moneyness = exp x,
          OptionType = option_type_label option_data_type\<rparr>"])
qed

lemma smile_rows_bad_shape:
  "length params \<noteq> 5 \<Longrightarrow> smile_rows spot_price option_data_type maturity k params = Inl ValueError"
  by (induction spot_price option_data_type maturity k params rule: smile_rows.induct) simp_all


lemma svi_maturity_skip:
  "length (maturity_slice imp_vol_data maturity) < 5 \<Longrightarrow>
   svi_maturity minimize uniform imp_vol_data spot_price reg_weight N option_data_type maturity s =
     Inr ([], s)"
  by (simp add: svi_maturity_def)

lemma slice_nonempty:
  "5 \<le> length (maturity_slice imp_vol_data maturity) \<Longrightarrow>
   slice_k imp_vol_data maturity \<noteq> [] \<and> slice_v imp_vol_data maturity \<noteq> []"
  by (auto simp: slice_k_def slice_v_def arr_mul_scalar_def)

lemma svi_maturity_none:
  "5 \<le> length (maturity_slice imp_vol_data maturity) \<Longrightarrow>
   calibrate_svi minimize uniform (slice_k imp_vol_data maturity) (slice_v imp_vol_data maturity)
     reg_weight N s = Inr (None, s') \<Longrightarrow>
   svi_maturity minimize uniform imp_vol_data spot_price reg_weight N option_data_type maturity s =
     Inr ([], s')"
  by (simp add: svi_maturity_def slice_k_def slice_v_def Let_def)

lemma svi_maturity_fit:
  "5 \<le> length (maturity_slice imp_vol_data maturity) \<Longrightarrow>
   calibrate_svi minimize uniform (slice_k imp_vol_data maturity) (slice_v imp_vol_data maturity)
     reg_weight N s = Inr (Some [a, b, rho, m_param, sigma], s') \<Longrightarrow>
   svi_maturity minimize uniform imp_vol_data spot_price reg_weight N option_data_type maturity s =
     Inr (map (grid_row spot_price option_data_type maturity a b rho m_param sigma)
            (linspace (Min (set (slice_k imp_vol_data maturity)) - 1 / 10)
                      (Max (set (slice_k imp_vol_data maturity)) + 1 / 10) 100), s')"
  using slice_nonempty [of imp_vol_data maturity]
  by (simp add: svi_maturity_def Let_def smile_rows_grid slice_k_def [symmetric]
      slice_v_def [symmetric] del: smile_rows.simps)

lemma svi_maturity_bad_shape:
  "5 \<le> length (maturity_slice imp_vol_data maturity) \<Longrightarrow>
   calibrate_svi minimize uniform (slice_k imp_vol_data maturity) (slice_v imp_vol_data maturity)
     reg_weight N s = Inr (Some params, s') \<Longrightarrow> length params \<noteq> 5 \<Longrightarrow>
   svi_maturity minimize uniform imp_vol_data spot_price reg_weight N option_data_type maturity s =
     Inl ValueError"
  by (simp add: svi_maturity_def Let_def smile_rows_bad_shape slice_k_def slice_v_def)

text \<open>What a pass that returns has appended.\<close>

lemma svi_maturity_rows:
  assumes "svi_maturity minimize uniform imp_vol_data spot_price reg_weight N option_data_type
             maturity s = Inr (new_rows, s')"
  shows "new_rows = [] \<or>
         (5 \<le> length (maturity_slice imp_vol_data maturity) \<and>
          (\<exists>a b rho m_param sigma.
             calibrate_svi minimize uniform (slice_k imp_vol_data maturity)
               (slice_v imp_vol_data maturity) reg_weight N s =
               Inr (Some [a, b, rho, m_param, sigma], s') \<and>
             new_rows = map (grid_row spot_price option_data_type maturity a b rho m_param sigma)
               (linspace (Min (set (slice_k imp_vol_data maturity)) - 1 / 10)
                         (Max (set (slice_k imp_vol_data maturity)) + 1 / 10) 100)))"
proof (cases "length (maturity_slice imp_vol_data maturity) < 5")
  case True
  with assms show ?thesis by (simp add: svi_maturity_skip)
next
  case False
  then have ge: "5 \<le> length (maturity_slice imp_vol_data maturity)" by simp
  from slice_nonempty [OF ge] obtain res s1 where
    cal: "calibrate_svi minimize uniform (slice_k imp_vol_data maturity)
            (slice_v imp_vol_data maturity) reg_weight N s = Inr (res, s1)"
    using calibrate_svi_inv [of "slice_v imp_vol_data maturity" minimize uniform
        "slice_k imp_vol_data maturity" reg_weight N s]
    by blast
  show ?thesis
  proof (cases res)
    case None
    with svi_maturity_none [OF ge, of minimize uniform reg_weight N s s1] cal assms
    show ?thesis by simp
  next
    case (Some params)
    show ?thesis
    proof (cases "length params = 5")
      case True
      then obtain a b rho m_param sigma where p: "params = [a, b, rho, m_param, sigma]"
        using five_params by blast
      from svi_maturity_fit [OF ge, of minimize uniform reg_weight N s a b rho m_param sigma s1
          spot_price option_data_type] cal Some p assms ge
      show ?thesis by auto
    next
      case False
      from svi_maturity_bad_shape [OF ge _ False, of minimize uniform reg_weight N s s1] cal Some assms
      show ?thesis by simp
    qed
  qed
qed


lemma generate_loop_acc:
  "generate_loop minimize uniform imp_vol_data spot_price reg_weight N option_data_type ms acc s =
     (case generate_loop minimize uniform imp_vol_data spot_price reg_weight N option_data_type
             ms [] s of
        Inl e \<Rightarrow> Inl e
      | Inr (new_rows, s') \<Rightarrow> Inr (acc @ new_rows, s'))"
proof (induction ms arbitrary: acc s)
  case Nil
  show ?case by simp
next
  case (Cons m ms)
  show ?case
  proof (cases "svi_maturity minimize uniform imp_vol_data spot_price reg_weight N
                  option_data_type m s")
    case (Inl e)
    then show ?thesis by simp
  next
    case (Inr res)
    obtain rs s1 where res: "res = (rs, s1)" by (cases res)
    show ?thesis
      using Inr res Cons.IH [of "acc @ rs" s1] Cons.IH [of rs s1]
      by (simp split: sum.splits)
  qed
qed

lemma generate_loop_append:
  "generate_loop minimize uniform imp_vol_data spot_price reg_weight N option_data_type
     (ms @ ms') acc s =
     (case generate_loop minimize uniform imp_vol_data spot_price reg_weight N option_data_type
             ms acc s of
        Inl e \<Rightarrow> Inl e
      | Inr (acc', s') \<Rightarrow>
          generate_loop minimize uniform imp_vol_data spot_price reg_weight N option_data_type
            ms' acc' s')"
  by (induction ms arbitrary: acc s) (simp_all split: sum.splits)

text \<open>Every row of a run that returns was appended by the pass of its own maturity, from
  the parameters a calibration of that maturity's slice returned.\<close>

lemma generate_loop_rows:
  assumes "generate_loop minimize uniform imp_vol_data spot_price reg_weight N option_data_type
             ms [] s = Inr (data, s')"
    and "r \<in> set data"
  shows "TimeToExpiry r \<in> set ms \<and>
         5 \<le> length (maturity_slice imp_vol_data (TimeToExpiry r)) \<and>
         (\<exists>a b rho m_param sigma s1 s2 x.
            calibrate_svi minimize uniform (slice_k imp_vol_data (TimeToExpiry r))
              (slice_v imp_vol_data (TimeToExpiry r)) reg_weight N s1 =
              Inr (Some [a, b, rho, m_param, sigma], s2) \<and>
            r = grid_row spot_price option_data_type (TimeToExpiry r) a b rho m_param sigma x)"
  using assms
proof (induction ms arbitrary: data s)
  case Nil
  then show ?case by simp
next
  case (Cons m ms)
  from Cons.prems(1) obtain rs s1 where
    pass: "svi_maturity minimize uniform imp_vol_data spot_price reg_weight N option_data_type
             m s = Inr (rs, s1)"
    by (auto split: sum.splits)
  with Cons.prems(1) have
    "generate_loop minimize uniform imp_vol_data spot_price reg_weight N option_data_type
       ms rs s1 = Inr (data, s')"
    by simp
  then obtain rest where
    rest: "generate_loop minimize uniform imp_vol_data spot_price reg_weight N option_data_type
             ms [] s1 = Inr (rest, s')"
    and data: "data = rs @ rest"
    by (subst (asm) generate_loop_acc) (auto split: sum.splits)
  from Cons.prems(2) data consider "r \<in> set rs" | "r \<in> set rest" by auto
  then show ?case
  proof cases
    case 1
    with svi_maturity_rows [OF pass] obtain a b rho m_param sigma x where
      ge: "5 \<le> length (maturity_slice imp_vol_data m)"
      and cal: "calibrate_svi minimize uniform (slice_k imp_vol_data m) (slice_v imp_vol_data m)
                  reg_weight N s = Inr (Some [a, b, rho, m_param, sigma], s1)"
      and r: "r = grid_row spot_price option_data_type m a b rho m_param sigma x"
      by auto
    from r have tte: "TimeToExpiry r = m" by (simp add: grid_row_def)
    from ge cal r show ?thesis
      unfolding tte by (intro conjI exI) simp_all
  next
    case 2
    from Cons.IH [OF rest 2] show ?thesis by auto
  qed
qed

lemma generate_loop_skip:
  assumes "length (maturity_slice imp_vol_data maturity) < 5"
  shows "generate_loop minimize uniform imp_vol_data spot_price reg_weight N option_data_type
           ms acc s =
         generate_loop minimize uniform imp_vol_data spot_price reg_weight N option_data_type
           (filter (\<lambda>m. m \<noteq> maturity) ms) acc s"
proof (induction ms arbitrary: acc s)
  case Nil
  show ?case by simp
next
  case (Cons m ms)
  then show ?case
    by (cases "m = maturity") (simp_all add: svi_maturity_skip [OF assms] split: sum.splits)
qed

lemma generate_rows:
  "generate_svi_calibrated_data minimize uniform ms imp_vol_data spot_price reg_weight N
     option_data_type s = Inr (out, s') \<Longrightarrow>
   generate_loop minimize uniform imp_vol_data spot_price reg_weight N option_data_type ms [] s =
     Inr (rows out, s')"
  by (auto simp: generate_svi_calibrated_data_def split: sum.splits if_splits)


lemma smile_slice_half:
  "maturity_slice smile_quotes (1 / 2) = take 6 (rows smile_quotes)"
  by (simp add: maturity_slice_def smile_quotes_def np_isclose_def)

lemma smile_slice_one:
  "maturity_slice smile_quotes 1 = drop 6 (rows smile_quotes)"
  by (simp add: maturity_slice_def smile_quotes_def np_isclose_def)

lemma smile_thin: "length (maturity_slice smile_quotes 1) < 5"
  by (simp add: smile_slice_one) (simp add: smile_quotes_def)

lemma smile_enough: "5 \<le> length (maturity_slice smile_quotes (1 / 2))"
  by (simp add: smile_slice_half) (simp add: smile_quotes_def)

lemma smile_k_half: "slice_k smile_quotes (1 / 2) = [- (1 / 5), - (1 / 10), 0, 1 / 10, 1 / 5, 3 / 10]"
  by (simp add: slice_k_def smile_slice_half) (simp add: smile_quotes_def)

lemma smile_v_half: "slice_v smile_quotes (1 / 2) = [25, 22, 20, 21, 23, 26]"
  by (simp add: slice_v_def smile_slice_half arr_mul_scalar_def) (simp add: smile_quotes_def)

lemma keeps_shape_start_point: "keeps_shape start_point_minimize"
  by (auto simp: keeps_shape_def start_point_minimize_def split: sum.splits)

text \<open>With the midpoint generator the start point is feasible, so the optimizer that
  stops there completes on any slice.\<close>

lemma start_point_calibration:
  assumes "length k = length v" and "v = x # xs"
  shows "calibrate_svi start_point_minimize midpoint_uniform k v lambda_reg 1 () =
           Inr (Some [fold min xs x, 1 / 10, 0, 0, 3 / 20], ())"
  using assms
  by (simp add: calibrate_svi_def nat_1_Suc svi_attempt_def midpoint_uniform_def
      start_point_minimize_def np_sub_def Let_def svi_model_map)

lemma smile_calibration:
  "calibrate_svi start_point_minimize midpoint_uniform (slice_k smile_quotes (1 / 2))
     (slice_v smile_quotes (1 / 2)) 0 1 () = Inr (Some [20, 1 / 10, 0, 0, 3 / 20], ())"
  by (simp add: smile_k_half smile_v_half start_point_calibration)


lemma generate_unfold:
  "generate_svi_calibrated_data minimize uniform ms imp_vol_data spot_price reg_weight N
     option_data_type s =
   (case generate_loop minimize uniform imp_vol_data spot_price reg_weight N option_data_type
           ms [] s of
      Inl e \<Rightarrow> Inl e
    | Inr (data, s') \<Rightarrow>
        Inr (\<lparr>columns =
                (if data \<noteq> []
                 then [''TimeToExpiry'', ''LogMoneyness'', ''StrikePrice'', ''Moneyness'',
                       ''ImpliedVolatility'', ''OptionType'']
                 else [''TimeToExpiry'', ''StrikePrice'', ''Moneyness'', ''ImpliedVolatility'',
                       ''OptionType'']),
              rows = data\<rparr>, s'))"
  by (simp add: generate_svi_calibrated_data_def split: sum.splits)

text \<open>
  Claim C6. When fewer than five quotes are close to a maturity, the generator behaves on
  any list of maturities exactly as on the list without that maturity: the same result, the
  same error if a pass for another maturity raises, the same generator state. So the
  maturity raises nothing, the others are still processed, and no row of the output carries
  it as \<open>TimeToExpiry\<close>.
\<close>

theorem thin_slice_absent:
  assumes "length (maturity_slice imp_vol_data maturity) < 5"
  shows "generate_svi_calibrated_data minimize uniform ms imp_vol_data spot_price reg_weight N
           option_data_type s =
         generate_svi_calibrated_data minimize uniform (filter (\<lambda>m. m \<noteq> maturity) ms)
           imp_vol_data spot_price reg_weight N option_data_type s \<and>
         (\<forall>out s'. generate_svi_calibrated_data minimize uniform ms imp_vol_data spot_price
              reg_weight N option_data_type s = Inr (out, s') \<longrightarrow>
            (\<forall>r \<in> set (rows out). TimeToExpiry r \<noteq> maturity))"
proof (intro conjI allI impI ballI)
  show "generate_svi_calibrated_data minimize uniform ms imp_vol_data spot_price reg_weight N
           option_data_type s =
         generate_svi_calibrated_data minimize uniform (filter (\<lambda>m. m \<noteq> maturity) ms)
           imp_vol_data spot_price reg_weight N option_data_type s"
    by (simp add: generate_svi_calibrated_data_def generate_loop_skip [OF assms, of _ _ _ _ _ _ ms])
next
  fix out s' r
  assume run: "generate_svi_calibrated_data minimize uniform ms imp_vol_data spot_price
      reg_weight N option_data_type s = Inr (out, s')" and r: "r \<in> set (rows out)"
  from generate_loop_rows [OF generate_rows [OF run] r] assms
  show "TimeToExpiry r \<noteq> maturity" by auto
qed

theorem thin_slice_absent_witness:
  "generate_svi_calibrated_data start_point_minimize midpoint_uniform [1, 1 / 2] smile_quotes
     100 0 1 ''Both'' () =
   generate_svi_calibrated_data start_point_minimize midpoint_uniform [1 / 2] smile_quotes
     100 0 1 ''Both'' ()"
proof -
  have thin: "length (maturity_slice smile_quotes 1) < 5"
    by (simp add: smile_slice_one) (simp add: smile_quotes_def)
  from thin_slice_absent [OF thin, of start_point_minimize midpoint_uniform "[1, 1 / 2]"
      100 0 1 "''Both''" "()"]
  show ?thesis by simp
qed

lemma grid_row_fields:
  "TimeToExpiry (grid_row spot_price option_data_type maturity a b rho m_param sigma x) = maturity"
  "LogMoneyness (grid_row spot_price option_data_type maturity a b rho m_param sigma x) = x"
  by (simp_all add: grid_row_def)

text \<open>
  Claim C8. Every row of the output was built from a parameter vector that \<open>calibrate_svi\<close>
  returned for the row's maturity when called with the slice's log-moneyness values and the
  slice's implied volatilities multiplied by 100, and the row's \<open>ImpliedVolatility\<close> is the
  SVI model value at the row's \<open>LogMoneyness\<close> for these parameters, divided by 100.
\<close>

theorem output_volatility_scale:
  assumes "generate_svi_calibrated_data minimize uniform ms imp_vol_data spot_price reg_weight N
             option_data_type s = Inr (out, s')"
    and "r \<in> set (rows out)"
  shows "\<exists>a b rho m_param sigma s1 s2.
           calibrate_svi minimize uniform
             (map LogMoneyness (maturity_slice imp_vol_data (TimeToExpiry r)))
             (map (\<lambda>q. ImpliedVolatility q * 100) (maturity_slice imp_vol_data (TimeToExpiry r)))
             reg_weight N s1 = Inr (Some [a, b, rho, m_param, sigma], s2) \<and>
           ImpliedVolatility r = svi_model [LogMoneyness r] a b rho m_param sigma ! 0 / 100"
proof -
  from generate_loop_rows [OF generate_rows [OF assms(1)] assms(2)]
  obtain a b rho m_param sigma s1 s2 x where
    cal: "calibrate_svi minimize uniform (slice_k imp_vol_data (TimeToExpiry r))
            (slice_v imp_vol_data (TimeToExpiry r)) reg_weight N s1 =
            Inr (Some [a, b, rho, m_param, sigma], s2)"
    and r: "r = grid_row spot_price option_data_type (TimeToExpiry r) a b rho m_param sigma x"
    by blast
  from r have "LogMoneyness r = x"
    and "ImpliedVolatility r = svi_model [x] a b rho m_param sigma ! 0 / 100"
    by (metis grid_row_def vol_point.select_convs)+
  with cal show ?thesis
    unfolding slice_k_def slice_v_def arr_mul_scalar_def map_map comp_def by blast
qed


theorem output_volatility_scale_witness:
  "\<exists>a b rho m_param sigma s1 s2.
     calibrate_svi start_point_minimize midpoint_uniform
       (map LogMoneyness (maturity_slice smile_quotes (1 / 2)))
       (map (\<lambda>q. ImpliedVolatility q * 100) (maturity_slice smile_quotes (1 / 2)))
       0 1 s1 = Inr (Some [a, b, rho, m_param, sigma], s2) \<and>
     ImpliedVolatility (hd (rows (fst (projr (generate_svi_calibrated_data start_point_minimize
        midpoint_uniform [1 / 2] smile_quotes 100 0 1 ''Both'' ()))))) =
       svi_model [LogMoneyness (hd (rows (fst (projr (generate_svi_calibrated_data
         start_point_minimize midpoint_uniform [1 / 2] smile_quotes 100 0 1 ''Both'' ())))))]
         a b rho m_param sigma ! 0 / 100"
proof -
  let ?xs = "linspace (Min (set (slice_k smile_quotes (1 / 2))) - 1 / 10)
               (Max (set (slice_k smile_quotes (1 / 2))) + 1 / 10) 100"
  let ?grid = "map (grid_row 100 ''Both'' (1 / 2) 20 (1 / 10) 0 0 (3 / 20)) ?xs"
  have "\<exists>out. generate_svi_calibrated_data start_point_minimize midpoint_uniform
          [1 / 2] smile_quotes 100 0 1 ''Both'' () = Inr (out, ()) \<and> rows out = ?grid"
    by (simp add: generate_unfold svi_maturity_fit [OF smile_enough smile_calibration])
  then obtain out where
    run: "generate_svi_calibrated_data start_point_minimize midpoint_uniform
            [1 / 2] smile_quotes 100 0 1 ''Both'' () = Inr (out, ())"
    and out: "rows out = ?grid"
    by blast
  have "?xs \<noteq> []"
    using linspace_length [of "Min (set (slice_k smile_quotes (1 / 2))) - 1 / 10"
        "Max (set (slice_k smile_quotes (1 / 2))) + 1 / 10" 100]
    by auto
  then have mem: "hd (rows out) \<in> set (rows out)" and tte: "TimeToExpiry (hd (rows out)) = 1 / 2"
    by (simp_all add: out hd_map grid_row_fields)
  from output_volatility_scale [OF run mem] run tte
  show ?thesis by simp
qed

lemma linspace_hundred:
  assumes "lo < hi"
  shows "length (linspace lo hi 100) = 100"
    and "linspace lo hi 100 ! 0 = lo"
    and "linspace lo hi 100 ! 99 = hi"
    and "\<forall>i < 99. linspace lo hi 100 ! Suc i - linspace lo hi 100 ! i = (hi - lo) / 99"
    and "\<forall>i < 99. linspace lo hi 100 ! i < linspace lo hi 100 ! Suc i"
    and "\<forall>x \<in> set (linspace lo hi 100). lo \<le> x \<and> x \<le> hi"
proof -
  define d where "d = (hi - lo) / 99"
  from assms have d: "0 < d" by (simp add: d_def)
  have nth: "linspace lo hi 100 ! i = lo + real i * d" if "i < 100" for i
    using linspace_nth [of 100 i lo hi] that by (simp add: d_def)
  show "length (linspace lo hi 100) = 100" by (simp add: linspace_length)
  show "linspace lo hi 100 ! 0 = lo" by (simp add: nth)
  show "linspace lo hi 100 ! 99 = hi" by (simp add: linspace_def)
  show "\<forall>i < 99. linspace lo hi 100 ! Suc i - linspace lo hi 100 ! i = (hi - lo) / 99"
    by (simp add: nth distrib_right) (simp add: d_def)
  show "\<forall>i < 99. linspace lo hi 100 ! i < linspace lo hi 100 ! Suc i"
    using d by (simp add: nth distrib_right)
  show "\<forall>x \<in> set (linspace lo hi 100). lo \<le> x \<and> x \<le> hi"
  proof
    fix x assume "x \<in> set (linspace lo hi 100)"
    then obtain i where i: "i < 100" and x: "x = lo + real i * d"
      by (auto simp: in_set_conv_nth linspace_length nth)
    from i have "real i \<le> 99" by simp
    with d have "real i * d \<le> 99 * d"
      by (intro mult_right_mono) simp_all
    moreover from d have "0 \<le> real i * d" by simp
    moreover have "99 * d = hi - lo" by (simp add: d_def)
    ultimately show "lo \<le> x \<and> x \<le> hi" by (simp add: x)
  qed
qed

lemma grid_bounds_apart: "k \<noteq> [] \<Longrightarrow> Min (set k) - 1 / 10 < Max (set k) + (1 / 10 :: real)"
proof -
  assume "k \<noteq> []"
  then have "Min (set k) \<le> Max (set k)" by (simp add: Min_le_iff)
  then show ?thesis by simp
qed


text \<open>
  Claim C4. Let a maturity occur once in the list of maturities, with at least five close
  quotes, and let the calibration of its slice return a parameter vector from the generator
  state \<open>s1\<close> in which the loop reaches it. Then a run that returns has exactly 100 rows
  with that maturity; in output order their \<open>LogMoneyness\<close> values start at
  \<open>min k - 0.1\<close>, end at \<open>max k + 0.1\<close>, advance by the constant step
  \<open>(max k - min k + 0.2) / 99\<close>, and are strictly increasing.
\<close>

theorem fitted_maturity_grid:
  assumes run: "generate_svi_calibrated_data minimize uniform (pre @ maturity # post) imp_vol_data
                  spot_price reg_weight N option_data_type s = Inr (out, s_end)"
    and once: "maturity \<notin> set pre" "maturity \<notin> set post"
    and entry: "generate_loop minimize uniform imp_vol_data spot_price reg_weight N
                  option_data_type pre [] s = Inr (before, s1)"
    and quotes: "5 \<le> length (maturity_slice imp_vol_data maturity)"
    and fit: "calibrate_svi minimize uniform (slice_k imp_vol_data maturity)
                (slice_v imp_vol_data maturity) reg_weight N s1 = Inr (Some params, s2)"
  shows "(let ks = map LogMoneyness (filter (\<lambda>r. TimeToExpiry r = maturity) (rows out));
              lo = Min (set (slice_k imp_vol_data maturity)) - 1 / 10;
              hi = Max (set (slice_k imp_vol_data maturity)) + 1 / 10
          in length (filter (\<lambda>r. TimeToExpiry r = maturity) (rows out)) = 100 \<and>
             ks ! 0 = lo \<and> ks ! 99 = hi \<and>
             (\<forall>i < 99. ks ! Suc i - ks ! i = (hi - lo) / 99) \<and>
             (\<forall>i < 99. ks ! i < ks ! Suc i) \<and>
             (\<forall>x \<in> set ks. lo \<le> x \<and> x \<le> hi))"
proof -
  let ?lo = "Min (set (slice_k imp_vol_data maturity)) - 1 / 10"
  let ?hi = "Max (set (slice_k imp_vol_data maturity)) + 1 / 10"
  let ?here = "\<lambda>r :: surface_row. TimeToExpiry r = maturity"
  from generate_rows [OF run] entry have tail:
    "generate_loop minimize uniform imp_vol_data spot_price reg_weight N option_data_type
       (maturity # post) before s1 = Inr (rows out, s_end)"
    by (simp add: generate_loop_append)
  have "length params = 5"
  proof (rule ccontr)
    assume "length params \<noteq> 5"
    from svi_maturity_bad_shape [OF quotes fit this, of spot_price option_data_type] tail
    show False by simp
  qed
  then obtain a b rho m_param sigma where params: "params = [a, b, rho, m_param, sigma]"
    using five_params by blast
  let ?grid = "map (grid_row spot_price option_data_type maturity a b rho m_param sigma)
                 (linspace ?lo ?hi 100)"
  from svi_maturity_fit [OF quotes fit [unfolded params], of spot_price option_data_type] tail
  have "generate_loop minimize uniform imp_vol_data spot_price reg_weight N option_data_type
          post (before @ ?grid) s2 = Inr (rows out, s_end)"
    by simp
  then obtain after where
    post_run: "generate_loop minimize uniform imp_vol_data spot_price reg_weight N
                 option_data_type post [] s2 = Inr (after, s_end)"
    and out: "rows out = (before @ ?grid) @ after"
    by (subst (asm) generate_loop_acc) (auto split: sum.splits)
  have "\<not> ?here r" if "r \<in> set before" for r
    using generate_loop_rows [OF entry that] once(1) by auto
  then have before: "filter ?here before = []" by simp
  have "\<not> ?here r" if "r \<in> set after" for r
    using generate_loop_rows [OF post_run that] once(2) by auto
  then have after: "filter ?here after = []" by simp
  have grid: "filter ?here ?grid = ?grid"
    by (simp add: filter_map comp_def grid_row_fields)
  have rows_here: "filter ?here (rows out) = ?grid"
    by (simp only: out filter_append before after grid append_Nil append_Nil2)
  have ks: "map LogMoneyness (filter ?here (rows out)) = linspace ?lo ?hi 100"
    by (simp only: rows_here map_map comp_def grid_row_fields map_ident)
  from slice_nonempty [OF quotes] have apart: "?lo < ?hi"
    by (simp add: grid_bounds_apart)
  show ?thesis
    unfolding Let_def ks
    using linspace_hundred [OF apart] by (simp add: rows_here)
qed


theorem fitted_maturity_grid_witness:
  "length (filter (\<lambda>r. TimeToExpiry r = 1 / 2)
     (rows (fst (projr (generate_svi_calibrated_data start_point_minimize midpoint_uniform
        [1, 1 / 2] smile_quotes 100 0 1 ''Both'' ()))))) = 100"
proof -
  let ?grid = "map (grid_row 100 ''Both'' (1 / 2) 20 (1 / 10) 0 0 (3 / 20))
                 (linspace (Min (set (slice_k smile_quotes (1 / 2))) - 1 / 10)
                           (Max (set (slice_k smile_quotes (1 / 2))) + 1 / 10) 100)"
  have entry: "generate_loop start_point_minimize midpoint_uniform smile_quotes 100 0 1 ''Both''
                 [1] [] () = Inr ([], ())"
    by (simp add: svi_maturity_skip [OF smile_thin])
  have "\<exists>out. generate_svi_calibrated_data start_point_minimize midpoint_uniform
          ([1] @ (1 / 2) # []) smile_quotes 100 0 1 ''Both'' () = Inr (out, ())"
    by (simp add: generate_unfold svi_maturity_skip [OF smile_thin]
        svi_maturity_fit [OF smile_enough smile_calibration])
  then obtain out where
    run: "generate_svi_calibrated_data start_point_minimize midpoint_uniform
            ([1] @ (1 / 2) # []) smile_quotes 100 0 1 ''Both'' () = Inr (out, ())"
    by blast
  have once: "(1 / 2 :: real) \<notin> set [1]" "(1 / 2 :: real) \<notin> set []"
    by simp_all
  from fitted_maturity_grid [OF run once entry smile_enough smile_calibration] run
  show ?thesis by (simp add: Let_def)
qed

text \<open>
  Claim C2 asks for the six columns of the non-empty output on an empty result. The code's
  empty table has five: whenever a run returns no rows, its columns are \<open>TimeToExpiry\<close>,
  \<open>StrikePrice\<close>, \<open>Moneyness\<close>, \<open>ImpliedVolatility\<close>, \<open>OptionType\<close>, without
  \<open>LogMoneyness\<close>.
\<close>

theorem empty_surface_columns:
  assumes "generate_svi_calibrated_data minimize uniform ms imp_vol_data spot_price reg_weight N
             option_data_type s = Inr (out, s')"
    and "rows out = []"
  shows "columns out =
           [''TimeToExpiry'', ''StrikePrice'', ''Moneyness'', ''ImpliedVolatility'', ''OptionType'']"
  using assms by (auto simp: generate_unfold split: sum.splits)

theorem empty_surface_columns_witness:
  "columns (fst (projr (generate_svi_calibrated_data start_point_minimize midpoint_uniform
      [1] smile_quotes 100 0 5 ''Both'' ()))) =
     [''TimeToExpiry'', ''StrikePrice'', ''Moneyness'', ''ImpliedVolatility'', ''OptionType'']"
proof -
  let ?out = "\<lparr>columns = [''TimeToExpiry'', ''StrikePrice'', ''Moneyness'', ''ImpliedVolatility'',
                           ''OptionType''],
               rows = [] :: surface_row list\<rparr>"
  have run: "generate_svi_calibrated_data start_point_minimize midpoint_uniform [1] smile_quotes
               100 0 5 ''Both'' () = Inr (?out, ())"
    by (simp add: generate_unfold svi_maturity_skip [OF smile_thin])
  have empty: "rows ?out = []" by simp
  from empty_surface_columns [OF run empty] run show ?thesis by simp
qed

text \<open>
  Claim C10. On an empty \<open>v\<close> the call raises \<open>ValueError\<close>, whatever the optimizer and
  the start count are. On a non-empty \<open>v\<close>, with an optimizer that returns (and keeps the
  shape of its start vector), the call returns \<open>None\<close> or a vector of five entries. The
  generator calls it only behind its five-quote gate, where \<open>v\<close> is not empty and the call
  returns.
\<close>

theorem calibrate_svi_total_on_nonempty:
  "calibrate_svi minimize uniform k [] lambda_reg N s = Inl ValueError \<and>
   (v \<noteq> [] \<and> keeps_shape minimize \<longrightarrow>
      (\<exists>res s'. calibrate_svi minimize uniform k v lambda_reg N s = Inr (res, s') \<and>
         (res = None \<or> (\<exists>p. res = Some p \<and> length p = 5)))) \<and>
   (5 \<le> length (maturity_slice imp_vol_data maturity) \<longrightarrow>
      slice_v imp_vol_data maturity \<noteq> [] \<and>
      (\<exists>res s'. calibrate_svi minimize uniform (slice_k imp_vol_data maturity)
         (slice_v imp_vol_data maturity) lambda_reg N s = Inr (res, s')))"
proof (intro conjI impI)
  show "calibrate_svi minimize uniform k [] lambda_reg N s = Inl ValueError"
    by (simp add: calibrate_svi_def)
next
  assume "v \<noteq> [] \<and> keeps_shape minimize"
  then have "v \<noteq> []" and "keeps_shape minimize" by simp_all
  then show "\<exists>res s'. calibrate_svi minimize uniform k v lambda_reg N s = Inr (res, s') \<and>
         (res = None \<or> (\<exists>p. res = Some p \<and> length p = 5))"
    by (rule calibrate_svi_total)
next
  assume "5 \<le> length (maturity_slice imp_vol_data maturity)"
  then show "slice_v imp_vol_data maturity \<noteq> []"
    by (simp add: slice_nonempty)
next
  assume "5 \<le> length (maturity_slice imp_vol_data maturity)"
  then have "slice_v imp_vol_data maturity \<noteq> []"
    by (simp add: slice_nonempty)
  from calibrate_svi_inv [OF this, of minimize uniform "slice_k imp_vol_data maturity"
      lambda_reg N s]
  obtain res s' where "calibrate_svi minimize uniform (slice_k imp_vol_data maturity)
         (slice_v imp_vol_data maturity) lambda_reg N s = Inr (res, s')"
    by blast
  then show "\<exists>res s'. calibrate_svi minimize uniform (slice_k imp_vol_data maturity)
         (slice_v imp_vol_data maturity) lambda_reg N s = Inr (res, s')"
    by (intro exI)
qed

theorem calibrate_svi_total_on_nonempty_witness:
  "calibrate_svi start_point_minimize midpoint_uniform [0] [] 0 5 () = Inl ValueError \<and>
   (\<exists>res s'. calibrate_svi start_point_minimize midpoint_uniform [0] [1] 0 5 () = Inr (res, s') \<and>
      (res = None \<or> (\<exists>p. res = Some p \<and> length p = 5))) \<and>
   slice_v smile_quotes (1 / 2) \<noteq> []"
proof -
  have v: "[1 :: real] \<noteq> []" by simp
  from calibrate_svi_total_on_nonempty [of start_point_minimize midpoint_uniform "[0]" 0 5 "()"
      "[1]" smile_quotes "1 / 2"] v keeps_shape_start_point smile_enough
  show ?thesis by blast
qed

subsection \<open>Outlier filter\<close>

lemma quantile_None: "quantile xs q = None \<longleftrightarrow> xs = []"
  by (simp add: quantile_def Let_def)

text \<open>
  Claim C9. \<open>filter_outliers\<close> keeps the columns, and its rows are exactly the rows of the
  input, in their order, that pass both tests: a volume above 10 when the table has a volume
  column (every row passes when it has none), and an implied volatility between
  \<open>Q1 - 2 * IQR\<close> and \<open>Q3 + 2 * IQR\<close>, both ends included, where \<open>Q1\<close>, \<open>Q3\<close> and
  \<open>IQR = Q3 - Q1\<close> are the quartiles of the implied volatilities of the rows that passed
  the volume test. The result is a new table; the argument is a value and stays as it was.
\<close>

theorem filter_outliers_rows:
  "columns (filter_outliers imp_vol_data) = columns imp_vol_data \<and>
   rows (filter_outliers imp_vol_data) =
     (let kept = (\<lambda>q. ''volume'' \<in> set (columns imp_vol_data) \<longrightarrow> volume_above 10 q);
          iv = map ImpliedVolatility (filter kept (rows imp_vol_data))
      in filter (\<lambda>q. kept q \<and>
                  (\<exists>Q1 Q3. quantile iv (1 / 4) = Some Q1 \<and> quantile iv (3 / 4) = Some Q3 \<and>
                     Q1 - 2 * (Q3 - Q1) \<le> ImpliedVolatility q \<and>
                     ImpliedVolatility q \<le> Q3 + 2 * (Q3 - Q1)))
           (rows imp_vol_data))"
proof -
  let ?kept = "\<lambda>q. ''volume'' \<in> set (columns imp_vol_data) \<longrightarrow> volume_above 10 q"
  let ?iv = "map ImpliedVolatility (filter ?kept (rows imp_vol_data))"
  let ?df1 = "if ''volume'' \<in> set (columns imp_vol_data)
              then imp_vol_data\<lparr>rows := filter (volume_above 10) (rows imp_vol_data)\<rparr>
              else imp_vol_data"
  have df1: "rows ?df1 = filter ?kept (rows imp_vol_data)" "columns ?df1 = columns imp_vol_data"
    by simp_all
  have split: "filter (\<lambda>q. ?kept q \<and> R q) (rows imp_vol_data) = filter R (rows ?df1)" for R
    unfolding df1 by (simp add: conj_commute)
  show ?thesis
  proof (cases "?iv = []")
    case True
    then have none: "quantile ?iv (1 / 4) = None" by (simp only: quantile_None)
    have "rows (filter_outliers imp_vol_data) = []"
      unfolding filter_outliers_def Let_def df1 none by simp
    moreover have "columns (filter_outliers imp_vol_data) = columns imp_vol_data"
      unfolding filter_outliers_def Let_def df1 none using df1(2) by simp
    ultimately show ?thesis
      unfolding Let_def none by simp
  next
    case False
    then obtain Q1 Q3 where q: "quantile ?iv (1 / 4) = Some Q1" "quantile ?iv (3 / 4) = Some Q3"
      by (metis quantile_None option.exhaust)
    show ?thesis
      unfolding filter_outliers_def Let_def df1 q split
      using df1(2) by (simp add: conj_commute)
  qed
qed


lemma five_vols_quartiles:
  "quantile [1 / 10, 3 / 25, 11 / 100, 13 / 100, 9 / 10] (1 / 4) = Some (11 / 100)"
  "quantile [1 / 10, 3 / 25, 11 / 100, 13 / 100, 9 / 10] (3 / 4) = Some (13 / 100)"
  by (simp_all add: quantile_def Let_def)

lemma volume_quartiles:
  "quantile [1 / 10, 11 / 100, 9 / 10, 7 / 50] (1 / 4) = Some (43 / 400)"
  "quantile [1 / 10, 11 / 100, 9 / 10, 7 / 50] (3 / 4) = Some (33 / 100)"
  by (simp_all add: quantile_def Let_def)

lemma both_Some: "(\<exists>Q1 Q3. Some a = Some Q1 \<and> Some b = Some Q3 \<and> P Q1 Q3) \<longleftrightarrow> P a b"
  by simp

theorem filter_outliers_rows_witness:
  "map ImpliedVolatility (rows (filter_outliers five_vols)) = [1 / 10, 3 / 25, 11 / 100, 13 / 100] \<and>
   map ImpliedVolatility (rows (filter_outliers five_vols_volume)) = [1 / 10, 11 / 100, 7 / 50]"
proof -
  have iv: "map ImpliedVolatility
              (filter (\<lambda>q. ''volume'' \<in> set (columns five_vols) \<longrightarrow> volume_above 10 q)
                 (rows five_vols)) = [1 / 10, 3 / 25, 11 / 100, 13 / 100, 9 / 10]"
    by (simp add: five_vols_def)
  have iv': "map ImpliedVolatility
              (filter (\<lambda>q. ''volume'' \<in> set (columns five_vols_volume) \<longrightarrow> volume_above 10 q)
                 (rows five_vols_volume)) = [1 / 10, 11 / 100, 9 / 10, 7 / 50]"
    by (simp add: five_vols_volume_def volume_above_def)
  from filter_outliers_rows [of five_vols, unfolded Let_def iv five_vols_quartiles both_Some]
  have a: "map ImpliedVolatility (rows (filter_outliers five_vols)) =
             [1 / 10, 3 / 25, 11 / 100, 13 / 100]"
    by (simp add: five_vols_def)
  from filter_outliers_rows [of five_vols_volume, unfolded Let_def iv' volume_quartiles both_Some]
  have b: "map ImpliedVolatility (rows (filter_outliers five_vols_volume)) =
             [1 / 10, 11 / 100, 7 / 50]"
    by (simp add: five_vols_volume_def volume_above_def)
  from a b show ?thesis by simp
qed

end
